theory Spec2Isabelle
  imports Complex_Main
begin

section \<open>The call service of the dialler (modules/calls/services/call.service.ts)\<close>

text \<open>
  The service is a TypeScript class over a Prisma store. The embedding keeps the store as
  a record of tables (lists of rows), passes it through every operation and returns it
  updated; a thrown error is a value of type \<open>error\<close>, and an operation that runs inside
  \<open>$transaction\<close> returns the store it was given when it throws.

  The clock (\<open>new Date()\<close>) is an argument, in milliseconds since the epoch. Where the
  code compares two readings (the webhook and \<open>updateCallStatus\<close>) they are two
  arguments; the readings of one call of \<open>recordCallOutcome\<close> or \<open>initiateCall\<close>, which
  are never compared, share one.

  Numbers that the schema stores in \<open>Int\<close> columns are \<open>int\<close>; user ids are taken
  below \<open>2^53\<close>, where the conversions between \<open>BigInt\<close> and \<open>Number\<close> are the
  identity; the bound of a 32-bit \<open>Int\<close> column, past which the store refuses a write,
  is not modelled, and no input below comes near it.

  Of the constraints that the schema leaves to the database, the one on the column that
  the service fills with a value of its own choice is modelled: \<open>callQueueId\<close> of a call
  session is a uuid that references a queue entry, and \<open>create\<close> refuses any other
  text. The ids that the operations look rows up by are taken as the caller gives them.
\<close>

subsection \<open>JavaScript lookups and truthiness\<close>

text \<open>
  The lookup tables of the service are object literals indexed by a string,
  \<open>table[key] || fallback\<close>. An object literal inherits the members of
  \<open>Object.prototype\<close>, so a key that names one of them finds that member (a function or
  an object, both truthy) and not \<open>undefined\<close>. An own value that is falsy (\<open>0\<close>, the
  empty string) gives way to the fallback.
\<close>

datatype 'a js = Val 'a | ProtoMember string

definition objectPrototypeMembers :: "string list" where
  "objectPrototypeMembers =
     [''constructor'', ''__proto__'', ''hasOwnProperty'', ''isPrototypeOf'',
      ''propertyIsEnumerable'', ''toLocaleString'', ''toString'', ''valueOf'',
      ''__defineGetter__'', ''__defineSetter__'', ''__lookupGetter__'',
      ''__lookupSetter__'']"

definition truthyNumber :: "int \<Rightarrow> bool" where
  "truthyNumber n = (n \<noteq> 0)"

definition truthyString :: "string \<Rightarrow> bool" where
  "truthyString s = (s \<noteq> [])"

definition lookupOr :: "('a \<Rightarrow> bool) \<Rightarrow> (string \<times> 'a) list \<Rightarrow> string \<Rightarrow> 'a \<Rightarrow> 'a js" where
  "lookupOr truthy table k fallback =
     (case map_of table k of
        Some v \<Rightarrow> if truthy v then Val v else Val fallback
      | None \<Rightarrow> if k \<in> set objectPrototypeMembers then ProtoMember k else Val fallback)"

text \<open>\<open>x || y\<close> for an optional number \<open>x\<close>: \<open>undefined\<close> and \<open>0\<close> both give \<open>y\<close>.\<close>

definition numberOr :: "int option \<Rightarrow> int js \<Rightarrow> int js" where
  "numberOr x y = (case x of Some n \<Rightarrow> if truthyNumber n then Val n else y | None \<Rightarrow> y)"

definition stringOr :: "string option \<Rightarrow> string \<Rightarrow> string" where
  "stringOr x y = (case x of Some s \<Rightarrow> if truthyString s then s else y | None \<Rightarrow> y)"

definition boolOr :: "bool option \<Rightarrow> bool \<Rightarrow> bool" where
  "boolOr x y = (case x of Some b \<Rightarrow> if b then b else y | None \<Rightarrow> y)"

subsection \<open>Scoring helpers\<close>

definition delayMap :: "(string \<times> int) list" where
  "delayMap =
     [(''contacted'', 24), (''no_answer'', 4), (''busy'', 2), (''wrong_number'', 48),
      (''not_interested'', 48), (''callback_requested'', 0), (''left_voicemail'', 8),
      (''failed'', 1)]"

definition getDefaultDelayHours :: "string \<Rightarrow> int js" where
  "getDefaultDelayHours outcomeType = lookupOr truthyNumber delayMap outcomeType 4"

definition adjustmentMap :: "(string \<times> int) list" where
  "adjustmentMap =
     [(''contacted'', -10), (''no_answer'', 5), (''busy'', 2), (''wrong_number'', 50),
      (''not_interested'', 100), (''callback_requested'', -20), (''left_voicemail'', 10),
      (''failed'', 0)]"

definition getScoreAdjustment :: "string \<Rightarrow> int js" where
  "getScoreAdjustment outcomeType = lookupOr truthyNumber adjustmentMap outcomeType 0"

definition calculateNextCallTime :: "int \<Rightarrow> string \<Rightarrow> int option" where
  \<comment> \<open>\<open>None\<close> is the invalid date that \<open>new Date(NaN)\<close> builds when the delay is not a number.\<close>
  "calculateNextCallTime now outcomeType =
     (case getDefaultDelayHours outcomeType of
        Val delayHours \<Rightarrow> Some (now + delayHours * 60 * 60 * 1000)
      | ProtoMember m \<Rightarrow> None)"

subsection \<open>The store\<close>

text \<open>
  One record per Prisma model, with the columns the service reads or writes; the columns
  that the store fills by itself (\<open>id\<close> of the rows the service never looks up,
  \<open>createdAt\<close>, \<open>updatedAt\<close>) are left out. A nullable column is an \<open>option\<close>. The
  log of the injected logger is part of the state, as (level, message) pairs.
\<close>

record CallSession =
  cs_id :: string
  cs_userId :: int
  cs_agentId :: int
  cs_callQueueId :: string
  cs_twilioCallSid :: "string option"
  cs_status :: string
  cs_direction :: string
  cs_startedAt :: int
  cs_connectedAt :: "int option"
  cs_endedAt :: "int option"
  cs_durationSeconds :: "int option"
  cs_talkTimeSeconds :: "int option"
  cs_userClaimsContext :: string

record CallOutcome =
  co_callSessionId :: string
  co_outcomeType :: string
  co_outcomeNotes :: string
  co_nextCallDelayHours :: int
  co_scoreAdjustment :: int
  co_magicLinkSent :: bool
  co_smsSent :: bool
  co_documentsRequested :: "string list option"
  co_recordedByAgentId :: int

record UserCallScore =
  us_userId :: int
  us_currentScore :: int
  us_lastOutcome :: "string option"
  us_lastCallAt :: "int option"
  us_totalAttempts :: int
  us_nextCallAfter :: "int option"

record Callback =
  cb_userId :: int
  cb_scheduledFor :: int
  cb_callbackReason :: string
  cb_preferredAgentId :: int
  cb_originalCallSessionId :: string
  cb_status :: string

record AgentSession =
  as_agentId :: int
  as_status :: string
  as_currentCallSessionId :: "string option"
  as_callsCompletedToday :: int
  as_totalTalkTimeSeconds :: int
  as_lastActivity :: int

record CallQueue =
  cq_id :: string
  cq_status :: string

record store =
  callSessions :: "CallSession list"
  callOutcomes :: "CallOutcome list"
  userCallScores :: "UserCallScore list"
  callbacks :: "Callback list"
  agentSessions :: "AgentSession list"
  callQueues :: "CallQueue list"
  logs :: "(string \<times> string) list"

text \<open>
  The errors: a plain \<open>Error\<close> of the service with its message, and the errors of the
  client: a value of the wrong type in \<open>data\<close>, an \<open>update\<close> of a row that is not
  there, a text that is no uuid for a uuid column, and a reference to a row that is not
  there.
\<close>

datatype error =
    Error string
  | PrismaClientValidationError
  | RecordNotFound
  | InconsistentColumnData
  | ForeignKeyConstraintFailed

subsection \<open>Arguments of the operations\<close>

record CallSessionOptions =
  so_userId :: int
  so_agentId :: int
  so_queueId :: "string option"
  so_direction :: "string option"
  so_phoneNumber :: "string option"

record CallUpdateOptions =
  uo_status :: "string js option"
  uo_twilioCallSid :: "string option"
  uo_connectedAt :: "int option"
  uo_endedAt :: "int option"

record CallOutcomeOptions =
  oo_outcomeType :: string
  oo_outcomeNotes :: "string option"
  oo_nextCallDelayHours :: "int option"
  oo_scoreAdjustment :: "int option"
  oo_magicLinkSent :: "bool option"
  oo_smsSent :: "bool option"
  oo_documentsRequested :: "string list option"
  oo_callbackDateTime :: "int option"
  oo_callbackReason :: "string option"

text \<open>Of the fields of a webhook the service reads \<open>CallSid\<close> and \<open>CallStatus\<close>.\<close>

record TwilioWebhookData =
  CallSid :: string
  CallStatus :: string

subsection \<open>Store primitives\<close>

text \<open>
  \<open>findUnique\<close> by id; \<open>update\<close> of the row with an id, which throws when there is no
  such row; a field given as \<open>undefined\<close> in \<open>data\<close> is left as it is. The queue entry
  that \<open>include: { callQueue: true }\<close> loads with a session is never used by the service
  and is left out of the lookup.
\<close>

definition findSession :: "CallSession list \<Rightarrow> string \<Rightarrow> CallSession option" where
  "findSession sessions sessionId = find (\<lambda>s. cs_id s = sessionId) sessions"

definition replaceSession :: "CallSession \<Rightarrow> CallSession list \<Rightarrow> CallSession list" where
  "replaceSession session sessions =
     map (\<lambda>s. if cs_id s = cs_id session then session else s) sessions"

definition orKeep :: "'a option \<Rightarrow> 'a option \<Rightarrow> 'a option" where
  "orKeep new old = (case new of Some v \<Rightarrow> Some v | None \<Rightarrow> old)"

definition updateQueueStatus :: "string \<Rightarrow> string \<Rightarrow> store \<Rightarrow> error + store" where
  "updateQueueStatus queueId status st =
     (case find (\<lambda>q. cq_id q = queueId) (callQueues st) of
        None \<Rightarrow> Inl RecordNotFound
      | Some _ \<Rightarrow>
          Inr (st\<lparr>callQueues :=
                 map (\<lambda>q. if cq_id q = queueId then q\<lparr>cq_status := status\<rparr> else q)
                   (callQueues st)\<rparr>))"

definition logInfo :: "string \<Rightarrow> store \<Rightarrow> store" where
  "logInfo message st = st\<lparr>logs := logs st @ [(''info'', message)]\<rparr>"

definition logWarn :: "string \<Rightarrow> store \<Rightarrow> store" where
  "logWarn message st = st\<lparr>logs := logs st @ [(''warn'', message)]\<rparr>"

text \<open>
  \<open>$transaction\<close>: the body either returns a value with the store it wrote, or throws,
  and then the store is the one the transaction started from.
\<close>

definition transaction :: "store \<Rightarrow> (error + 'a \<times> store) \<Rightarrow> (error + 'a) \<times> store" where
  "transaction st body =
     (case body of Inl e \<Rightarrow> (Inl e, st) | Inr (v, st') \<Rightarrow> (Inr v, st'))"

subsection \<open>initiateCall\<close>

text \<open>
  The schema declares \<open>callQueueId String @db.Uuid\<close> with a required relation to
  \<open>CallQueue\<close>. A uuid is taken in its hyphenated form, 8-4-4-4-12 hexadecimal digits,
  which is what the router admits for a \<open>queueId\<close>; every form of a uuid holds 32
  hexadecimal digits, so the empty string is none.
\<close>

definition isHexDigit :: "char \<Rightarrow> bool" where
  "isHexDigit c = (c \<in> set ''0123456789abcdefABCDEF'')"

definition isUuid :: "string \<Rightarrow> bool" where
  "isUuid s =
     (length s = 36 \<and> map (\<lambda>i. s ! i) [8, 13, 18, 23] = ''----'' \<and>
      length (filter isHexDigit s) = 32)"

text \<open>
  \<open>callSession.create\<close>: the row is stored when its \<open>callQueueId\<close> is a uuid and the
  queue entry it names is there.
\<close>

definition createCallSession :: "CallSession \<Rightarrow> store \<Rightarrow> error + store" where
  "createCallSession callSession tx =
     (if isUuid (cs_callQueueId callSession)
      then (case find (\<lambda>q. cq_id q = cs_callQueueId callSession) (callQueues tx) of
              None \<Rightarrow> Inl ForeignKeyConstraintFailed
            | Some _ \<Rightarrow> Inr (tx\<lparr>callSessions := callSessions tx @ [callSession]\<rparr>))
      else Inl InconsistentColumnData)"

text \<open>
  \<open>newId\<close> is the uuid the store gives the new row, \<open>now\<close> the reading of the clock, and
  \<open>claims\<close> the JSON text of the claims of the user context (mock data that does not
  depend on the store).
\<close>

definition initiateCall ::
  "store \<Rightarrow> string \<Rightarrow> int \<Rightarrow> string \<Rightarrow> CallSessionOptions \<Rightarrow> (error + CallSession) \<times> store" where
  "initiateCall st newId now claims options =
     transaction st
       (let callSession =
              \<lparr>cs_id = newId,
               cs_userId = so_userId options,
               cs_agentId = so_agentId options,
               cs_callQueueId = stringOr (so_queueId options) [],
               cs_twilioCallSid = None,
               cs_status = ''initiated'',
               cs_direction = (case so_direction options of None \<Rightarrow> ''outbound'' | Some d \<Rightarrow> d),
               cs_startedAt = now,
               cs_connectedAt = None,
               cs_endedAt = None,
               cs_durationSeconds = None,
               cs_talkTimeSeconds = None,
               cs_userClaimsContext = claims\<rparr>
        in case createCallSession callSession st of
             Inl e \<Rightarrow> Inl e
           | Inr st1 \<Rightarrow>
               (let st2 = st1\<lparr>agentSessions :=
                             map (\<lambda>a. if as_agentId a = so_agentId options
                                           \<and> as_status a \<in> set [''available'', ''break'']
                                        then a\<lparr>as_status := ''on_call'',
                                               as_currentCallSessionId := Some newId,
                                               as_lastActivity := now\<rparr>
                                        else a)
                               (agentSessions st1)\<rparr>
                in case (case so_queueId options of
                           Some queueId \<Rightarrow>
                             if truthyString queueId
                             then updateQueueStatus queueId ''assigned'' st2
                             else Inr st2
                         | None \<Rightarrow> Inr st2) of
                     Inl e \<Rightarrow> Inl e
                   | Inr st3 \<Rightarrow> Inr (callSession, logInfo ''Call session initiated'' st3)))"

subsection \<open>updateCallStatus\<close>

text \<open>
  \<open>now\<close> is the clock as read while the \<open>data\<close> object is built. A status that is not a
  string is refused by the client before the store is touched.
\<close>

definition updateCallStatus ::
  "store \<Rightarrow> int \<Rightarrow> string \<Rightarrow> CallUpdateOptions \<Rightarrow> (error + CallSession) \<times> store" where
  "updateCallStatus st now sessionId updateData =
     (case uo_status updateData of
        Some (ProtoMember m) \<Rightarrow> (Inl PrismaClientValidationError, st)
      | _ \<Rightarrow>
        (case findSession (callSessions st) sessionId of
           None \<Rightarrow> (Inl RecordNotFound, st)
         | Some s \<Rightarrow>
             let session =
                   s\<lparr>cs_status :=
                       (case uo_status updateData of Some (Val v) \<Rightarrow> v | _ \<Rightarrow> cs_status s),
                     cs_twilioCallSid := orKeep (uo_twilioCallSid updateData) (cs_twilioCallSid s),
                     cs_connectedAt := orKeep (uo_connectedAt updateData) (cs_connectedAt s),
                     cs_endedAt := orKeep (uo_endedAt updateData) (cs_endedAt s),
                     cs_durationSeconds :=
                       (case uo_endedAt updateData of
                          Some endedAt \<Rightarrow> Some ((endedAt - now) div 1000)
                        | None \<Rightarrow> cs_durationSeconds s),
                     cs_talkTimeSeconds :=
                       (case (uo_endedAt updateData, uo_connectedAt updateData) of
                          (Some endedAt, Some connectedAt) \<Rightarrow>
                            Some ((endedAt - connectedAt) div 1000)
                        | _ \<Rightarrow> cs_talkTimeSeconds s)\<rparr>
             in (Inr session,
                 logInfo ''Call status updated''
                   (st\<lparr>callSessions := replaceSession session (callSessions st)\<rparr>))))"

subsection \<open>handleTwilioWebhook\<close>

definition statusMap :: "(string \<times> string) list" where
  "statusMap =
     [(''ringing'', ''ringing''), (''in-progress'', ''connected''),
      (''completed'', ''completed''), (''busy'', ''no_answer''), (''failed'', ''failed''),
      (''no-answer'', ''no_answer''), (''canceled'', ''failed'')]"

text \<open>
  The update that the webhook builds from the session it found: \<open>tEvent\<close> is the clock
  as the webhook reads it for \<open>connectedAt\<close> or \<open>endedAt\<close> (at most one of the two is
  stamped in one delivery).
\<close>

definition webhookUpdateData :: "CallSession \<Rightarrow> int \<Rightarrow> string \<Rightarrow> CallUpdateOptions" where
  "webhookUpdateData callSession tEvent twilioStatus =
     \<lparr>uo_status = Some (lookupOr truthyString statusMap twilioStatus ''failed''),
      uo_twilioCallSid = None,
      uo_connectedAt =
        (if twilioStatus = ''in-progress'' \<and> cs_connectedAt callSession = None
         then Some tEvent else None),
      uo_endedAt =
        (if twilioStatus \<in> set [''completed'', ''busy'', ''failed'', ''no-answer'', ''canceled'']
         then Some tEvent else None)\<rparr>"

text \<open>\<open>tUpdate\<close> is the later reading of the clock inside \<open>updateCallStatus\<close>.\<close>

definition handleTwilioWebhook ::
  "store \<Rightarrow> int \<Rightarrow> int \<Rightarrow> TwilioWebhookData \<Rightarrow> (error + unit) \<times> store" where
  "handleTwilioWebhook st tEvent tUpdate webhookData =
     (case find (\<lambda>s. cs_twilioCallSid s = Some (CallSid webhookData)) (callSessions st) of
        None \<Rightarrow> (Inr (), logWarn ''Twilio webhook for unknown call session'' st)
      | Some callSession \<Rightarrow>
          (case updateCallStatus st tUpdate (cs_id callSession)
                  (webhookUpdateData callSession tEvent (CallStatus webhookData)) of
             (Inl e, st') \<Rightarrow> (Inl e, st')
           | (Inr session, st') \<Rightarrow> (Inr (), logInfo ''Twilio webhook processed'' st')))"

subsection \<open>recordCallOutcome\<close>

text \<open>
  The \<open>data\<close> of \<open>callOutcome.create\<close>. The delay and the adjustment are
  \<open>override || default\<close>; a value that is not a number is refused by the client.
\<close>

definition callOutcomeData :: "string \<Rightarrow> int \<Rightarrow> CallOutcomeOptions \<Rightarrow> error + CallOutcome" where
  "callOutcomeData sessionId agentId outcome =
     (case (numberOr (oo_nextCallDelayHours outcome)
              (getDefaultDelayHours (oo_outcomeType outcome)),
            numberOr (oo_scoreAdjustment outcome)
              (getScoreAdjustment (oo_outcomeType outcome))) of
        (Val delay, Val adjustment) \<Rightarrow>
          Inr \<lparr>co_callSessionId = sessionId,
               co_outcomeType = oo_outcomeType outcome,
               co_outcomeNotes = stringOr (oo_outcomeNotes outcome) [],
               co_nextCallDelayHours = delay,
               co_scoreAdjustment = adjustment,
               co_magicLinkSent = boolOr (oo_magicLinkSent outcome) False,
               co_smsSent = boolOr (oo_smsSent outcome) False,
               co_documentsRequested = oo_documentsRequested outcome,
               co_recordedByAgentId = agentId\<rparr>
      | _ \<Rightarrow> Inl PrismaClientValidationError)"

text \<open>
  The upsert of the score: \<open>update\<close> increments the stored score by the adjustment,
  \<open>create\<close> seeds it with \<open>Math.max(0, adjustment)\<close>. The next call time comes from
  \<open>calculateNextCallTime(outcomeType)\<close> alone.
\<close>

definition updateUserScoreAfterCall ::
  "store \<Rightarrow> int \<Rightarrow> int \<Rightarrow> string \<Rightarrow> int option \<Rightarrow> error + store" where
  "updateUserScoreAfterCall tx now userId outcomeType scoreAdjustment =
     (case (numberOr scoreAdjustment (getScoreAdjustment outcomeType),
            calculateNextCallTime now outcomeType) of
        (Val adjustment, Some nextCallAfter) \<Rightarrow>
          Inr (tx\<lparr>userCallScores :=
                 (case find (\<lambda>s. us_userId s = userId) (userCallScores tx) of
                    Some _ \<Rightarrow>
                      map (\<lambda>s. if us_userId s = userId
                                then s\<lparr>us_currentScore := us_currentScore s + adjustment,
                                       us_lastOutcome := Some outcomeType,
                                       us_lastCallAt := Some now,
                                       us_totalAttempts := us_totalAttempts s + 1,
                                       us_nextCallAfter := Some nextCallAfter\<rparr>
                                else s)
                        (userCallScores tx)
                  | None \<Rightarrow>
                      userCallScores tx @
                        [\<lparr>us_userId = userId,
                          us_currentScore = max 0 adjustment,
                          us_lastOutcome = Some outcomeType,
                          us_lastCallAt = Some now,
                          us_totalAttempts = 1,
                          us_nextCallAfter = Some nextCallAfter\<rparr>])\<rparr>)
      | _ \<Rightarrow> Inl PrismaClientValidationError)"

definition createCallback ::
  "string \<Rightarrow> int \<Rightarrow> CallSession \<Rightarrow> CallOutcomeOptions \<Rightarrow> store \<Rightarrow> store" where
  "createCallback sessionId agentId callSession outcome tx =
     (case oo_callbackDateTime outcome of
        Some callbackDateTime \<Rightarrow>
          if oo_outcomeType outcome = ''callback_requested''
          then tx\<lparr>callbacks := callbacks tx @
                     [\<lparr>cb_userId = cs_userId callSession,
                       cb_scheduledFor = callbackDateTime,
                       cb_callbackReason =
                         stringOr (oo_callbackReason outcome) ''User requested callback'',
                       cb_preferredAgentId = agentId,
                       cb_originalCallSessionId = sessionId,
                       cb_status = ''pending''\<rparr>]\<rparr>
          else tx
      | None \<Rightarrow> tx)"

definition releaseAgent :: "int \<Rightarrow> string \<Rightarrow> int \<Rightarrow> CallSession \<Rightarrow> store \<Rightarrow> store" where
  "releaseAgent now sessionId agentId callSession tx =
     (if cs_status callSession \<in> set [''completed'', ''failed'', ''no_answer'']
      then tx\<lparr>agentSessions :=
                map (\<lambda>a. if as_agentId a = agentId \<and> as_currentCallSessionId a = Some sessionId
                          then a\<lparr>as_status := ''available'',
                                 as_currentCallSessionId := None,
                                 as_callsCompletedToday := as_callsCompletedToday a + 1,
                                 as_totalTalkTimeSeconds :=
                                   as_totalTalkTimeSeconds a +
                                   (case cs_talkTimeSeconds callSession of
                                      Some n \<Rightarrow> n | None \<Rightarrow> 0),
                                 as_lastActivity := now\<rparr>
                          else a)
                  (agentSessions tx)\<rparr>
      else tx)"

definition completeQueueEntry :: "CallSession \<Rightarrow> store \<Rightarrow> error + store" where
  "completeQueueEntry callSession tx =
     (if truthyString (cs_callQueueId callSession)
      then updateQueueStatus (cs_callQueueId callSession) ''completed'' tx
      else Inr tx)"

definition recordCallOutcome ::
  "store \<Rightarrow> int \<Rightarrow> string \<Rightarrow> int \<Rightarrow> CallOutcomeOptions \<Rightarrow> (error + CallOutcome) \<times> store" where
  "recordCallOutcome st now sessionId agentId outcome =
     transaction st
       (case findSession (callSessions st) sessionId of
          None \<Rightarrow> Inl (Error ''Call session not found'')
        | Some callSession \<Rightarrow>
            if cs_agentId callSession \<noteq> agentId
            then Inl (Error ''Agent not authorized for this call session'')
            else
              (case callOutcomeData sessionId agentId outcome of
                 Inl e \<Rightarrow> Inl e
               | Inr callOutcome \<Rightarrow>
                   (case updateUserScoreAfterCall
                           (st\<lparr>callOutcomes := callOutcomes st @ [callOutcome]\<rparr>)
                           now (cs_userId callSession) (oo_outcomeType outcome)
                           (oo_scoreAdjustment outcome) of
                      Inl e \<Rightarrow> Inl e
                    | Inr tx \<Rightarrow>
                        (case completeQueueEntry callSession
                                (releaseAgent now sessionId agentId callSession
                                   (createCallback sessionId agentId callSession outcome tx)) of
                           Inl e \<Rightarrow> Inl e
                         | Inr tx' \<Rightarrow>
                             Inr (callOutcome, logInfo ''Call outcome recorded'' tx')))))"

text \<open>A sequence of calls of \<open>recordCallOutcome\<close>, each (clock, session, agent, outcome).\<close>

fun recordCallOutcomes ::
  "store \<Rightarrow> (int \<times> string \<times> int \<times> CallOutcomeOptions) list \<Rightarrow> store" where
  "recordCallOutcomes st [] = st"
| "recordCallOutcomes st ((now, sessionId, agentId, outcome) # calls) =
     recordCallOutcomes (snd (recordCallOutcome st now sessionId agentId outcome)) calls"

definition scoreOf :: "store \<Rightarrow> int \<Rightarrow> UserCallScore option" where
  "scoreOf st userId = find (\<lambda>s. us_userId s = userId) (userCallScores st)"

text \<open>
  What the claims observe of a user: the attempts counted in the score (0 when there is
  no score yet) and the outcome rows recorded on the sessions of the user.
\<close>

definition attempts :: "store \<Rightarrow> int \<Rightarrow> int" where
  "attempts st userId = (case scoreOf st userId of None \<Rightarrow> 0 | Some s \<Rightarrow> us_totalAttempts s)"

definition outcomesOfUser :: "store \<Rightarrow> int \<Rightarrow> CallOutcome list" where
  "outcomesOfUser st userId =
     filter (\<lambda>r. case findSession (callSessions st) (co_callSessionId r) of
                   Some s \<Rightarrow> cs_userId s = userId | None \<Rightarrow> False)
       (callOutcomes st)"

subsection \<open>getCallAnalytics\<close>

text \<open>
  The five queries are computed from the store. JavaScript numbers are taken as exact
  rationals; a division is \<open>None\<close> when the divisor is zero, where JavaScript gives
  \<open>NaN\<close> or an infinity and no defined number. The code computes in doubles, so at a
  tie of \<open>Math.round\<close> its value can differ from the exact one in the last digit; which
  values are defined is the same.
\<close>

record CallAnalyticsFilters =
  af_agentId :: "int option"
  af_startDate :: "int option"
  af_endDate :: "int option"
  af_outcomeType :: "string option"

record CallAnalytics =
  an_totalCalls :: int
  an_completedCalls :: int
  an_successfulContacts :: int
  an_noAnswers :: int
  an_callbacks :: int
  an_notInterested :: int
  an_avgDurationMinutes :: "rat option"
  an_avgTalkTimeMinutes :: "rat option"
  an_contactRate :: "rat option"

definition jsDivide :: "rat \<Rightarrow> rat \<Rightarrow> rat option" where
  "jsDivide x y = (if y = 0 then None else Some (x / y))"

definition mathRound :: "rat \<Rightarrow> rat" where
  "mathRound x = of_int \<lfloor>x + 1 / 2\<rfloor>"

definition whereSession :: "CallAnalyticsFilters \<Rightarrow> CallSession \<Rightarrow> bool" where
  "whereSession filters s =
     ((case af_agentId filters of
         Some agentId \<Rightarrow> if truthyNumber agentId then cs_agentId s = agentId else True
       | None \<Rightarrow> True) \<and>
      (case af_startDate filters of Some startDate \<Rightarrow> startDate \<le> cs_startedAt s | None \<Rightarrow> True) \<and>
      (case af_endDate filters of Some endDate \<Rightarrow> cs_startedAt s \<le> endDate | None \<Rightarrow> True))"

definition average :: "int list \<Rightarrow> rat option" where
  \<comment> \<open>\<open>_avg\<close> of an aggregate: \<open>null\<close> over no rows.\<close>
  "average xs = (if xs = [] then None else Some (of_int (sum_list xs) / of_int (int (length xs))))"

definition outcomeStats :: "store \<Rightarrow> CallAnalyticsFilters \<Rightarrow> (string \<times> int) list" where
  \<comment> \<open>\<open>groupBy outcomeType\<close> with the count of each group, over the outcomes whose session matches.\<close>
  "outcomeStats st filters =
     (let rows = filter (\<lambda>r. case findSession (callSessions st) (co_callSessionId r) of
                               Some s \<Rightarrow> whereSession filters s | None \<Rightarrow> False)
                   (callOutcomes st)
      in map (\<lambda>t. (t, int (length (filter (\<lambda>r. co_outcomeType r = t) rows))))
           (remdups (map co_outcomeType rows)))"

definition countOr0 :: "(string \<times> int) list \<Rightarrow> string \<Rightarrow> int" where
  \<comment> \<open>\<open>outcomes.key || 0\<close> for the four keys read, none of which is inherited.\<close>
  "countOr0 outcomes k =
     (case map_of outcomes k of Some n \<Rightarrow> if truthyNumber n then n else 0 | None \<Rightarrow> 0)"

definition minutes :: "rat option \<Rightarrow> rat option" where
  \<comment> \<open>\<open>avg ? Math.round((avg / 60) * 100) / 100 : 0\<close>\<close>
  "minutes avg =
     (case avg of
        Some a \<Rightarrow>
          if a \<noteq> 0
          then Option.bind (jsDivide a 60) (\<lambda>q. jsDivide (mathRound (q * 100)) 100)
          else Some 0
      | None \<Rightarrow> Some 0)"

definition getCallAnalytics :: "store \<Rightarrow> CallAnalyticsFilters \<Rightarrow> CallAnalytics" where
  "getCallAnalytics st filters =
     (let matching = filter (whereSession filters) (callSessions st);
          totalCalls = int (length matching);
          completedCalls = int (length (filter (\<lambda>s. cs_status s = ''completed'') matching));
          outcomes = outcomeStats st filters;
          avgDuration = average (List.map_filter cs_durationSeconds matching);
          avgTalkTime = average (List.map_filter cs_talkTimeSeconds matching)
      in \<lparr>an_totalCalls = totalCalls,
          an_completedCalls = completedCalls,
          an_successfulContacts = countOr0 outcomes ''contacted'',
          an_noAnswers = countOr0 outcomes ''no_answer'',
          an_callbacks = countOr0 outcomes ''callback_requested'',
          an_notInterested = countOr0 outcomes ''not_interested'',
          an_avgDurationMinutes = minutes avgDuration,
          an_avgTalkTimeMinutes = minutes avgTalkTime,
          an_contactRate =
            (if totalCalls > 0
             then map_option (\<lambda>q. mathRound (q * 100))
                    (jsDivide (of_int (countOr0 outcomes ''contacted'')) (of_int totalCalls))
             else Some 0)\<rparr>)"

subsection \<open>Example data\<close>

text \<open>
  A store with one call session (user 7, agent 1, started at time 0, known to the
  telephony provider as \<open>CA1\<close>, its \<open>callQueueId\<close> empty) and nothing else; a store
  with one pending queue entry; an outcome submission that gives the outcome type only;
  the options of a call without and with that queue entry; a filter that selects
  everything.
\<close>

definition exampleSession :: CallSession where
  "exampleSession =
     \<lparr>cs_id = ''s1'', cs_userId = 7, cs_agentId = 1, cs_callQueueId = [],
      cs_twilioCallSid = Some ''CA1'', cs_status = ''initiated'',
      cs_direction = ''outbound'', cs_startedAt = 0, cs_connectedAt = None,
      cs_endedAt = None, cs_durationSeconds = None, cs_talkTimeSeconds = None,
      cs_userClaimsContext = []\<rparr>"

definition exampleStore :: store where
  "exampleStore =
     \<lparr>callSessions = [exampleSession], callOutcomes = [], userCallScores = [],
      callbacks = [], agentSessions = [], callQueues = [], logs = []\<rparr>"

definition emptyStore :: store where
  "emptyStore =
     \<lparr>callSessions = [], callOutcomes = [], userCallScores = [],
      callbacks = [], agentSessions = [], callQueues = [], logs = []\<rparr>"

definition outcomeOf :: "string \<Rightarrow> CallOutcomeOptions" where
  "outcomeOf outcomeType =
     \<lparr>oo_outcomeType = outcomeType, oo_outcomeNotes = None, oo_nextCallDelayHours = None,
      oo_scoreAdjustment = None, oo_magicLinkSent = None, oo_smsSent = None,
      oo_documentsRequested = None, oo_callbackDateTime = None, oo_callbackReason = None\<rparr>"

definition queueStore :: store where
  "queueStore =
     \<lparr>callSessions = [], callOutcomes = [], userCallScores = [], callbacks = [],
      agentSessions = [],
      callQueues = [\<lparr>cq_id = ''123e4567-e89b-12d3-a456-426614174000'', cq_status = ''pending''\<rparr>],
      logs = []\<rparr>"

definition queueOptions :: CallSessionOptions where
  "queueOptions =
     \<lparr>so_userId = 7, so_agentId = 1,
      so_queueId = Some ''123e4567-e89b-12d3-a456-426614174000'', so_direction = None,
      so_phoneNumber = None\<rparr>"

definition noQueueOptions :: CallSessionOptions where
  "noQueueOptions =
     \<lparr>so_userId = 7, so_agentId = 1, so_queueId = None, so_direction = None,
      so_phoneNumber = None\<rparr>"

definition noFilters :: CallAnalyticsFilters where
  "noFilters = \<lparr>af_agentId = None, af_startDate = None, af_endDate = None, af_outcomeType = None\<rparr>"

section \<open>Properties\<close>

subsection \<open>Lookup tables\<close>

lemma lookupOr_own:
  "map_of table k = Some v \<Longrightarrow>
     lookupOr truthy table k d = (if truthy v then Val v else Val d)"
  by (simp add: lookupOr_def)

lemma lookupOr_absent:
  "k \<notin> fst ` set table \<Longrightarrow> k \<notin> set objectPrototypeMembers \<Longrightarrow>
     lookupOr truthy table k d = Val d"
  by (simp add: lookupOr_def map_of_eq_None_iff [THEN iffD2])

lemma lookupOr_inherited:
  "k \<notin> fst ` set table \<Longrightarrow> k \<in> set objectPrototypeMembers \<Longrightarrow>
     lookupOr truthy table k d = ProtoMember k"
  by (simp add: lookupOr_def map_of_eq_None_iff [THEN iffD2])

text \<open>
  The rows of the default tables other than the delay of \<open>callback_requested\<close>: the
  helpers return the entry of the table of section 4.1.
\<close>

lemma getScoreAdjustment_table:
  "getScoreAdjustment ''contacted'' = Val (-10)"
  "getScoreAdjustment ''no_answer'' = Val 5"
  "getScoreAdjustment ''busy'' = Val 2"
  "getScoreAdjustment ''left_voicemail'' = Val 10"
  "getScoreAdjustment ''wrong_number'' = Val 50"
  "getScoreAdjustment ''not_interested'' = Val 100"
  "getScoreAdjustment ''callback_requested'' = Val (-20)"
  "getScoreAdjustment ''failed'' = Val 0"
  by (simp_all add: getScoreAdjustment_def lookupOr_def adjustmentMap_def truthyNumber_def)

lemma getDefaultDelayHours_table:
  "getDefaultDelayHours ''contacted'' = Val 24"
  "getDefaultDelayHours ''no_answer'' = Val 4"
  "getDefaultDelayHours ''busy'' = Val 2"
  "getDefaultDelayHours ''left_voicemail'' = Val 8"
  "getDefaultDelayHours ''wrong_number'' = Val 48"
  "getDefaultDelayHours ''not_interested'' = Val 48"
  "getDefaultDelayHours ''failed'' = Val 1"
  by (simp_all add: getDefaultDelayHours_def lookupOr_def delayMap_def truthyNumber_def)

text \<open>
  An outcome type that is neither a key of the tables nor the name of an inherited member
  gets the fallbacks, 4 hours and 0; the name of an inherited member gets that member.
\<close>

lemma getDefaultDelayHours_unrecognized:
  "outcomeType \<notin> fst ` set delayMap \<Longrightarrow> outcomeType \<notin> set objectPrototypeMembers \<Longrightarrow>
     getDefaultDelayHours outcomeType = Val 4"
  by (simp add: getDefaultDelayHours_def lookupOr_absent)

lemma getScoreAdjustment_unrecognized:
  "outcomeType \<notin> fst ` set adjustmentMap \<Longrightarrow> outcomeType \<notin> set objectPrototypeMembers \<Longrightarrow>
     getScoreAdjustment outcomeType = Val 0"
  by (simp add: getScoreAdjustment_def lookupOr_absent)

lemma getDefaultDelayHours_inherited:
  "outcomeType \<in> set objectPrototypeMembers \<Longrightarrow>
     getDefaultDelayHours outcomeType = ProtoMember outcomeType"
  unfolding getDefaultDelayHours_def
  by (rule lookupOr_inherited) (auto simp add: delayMap_def objectPrototypeMembers_def)

text \<open>
  C1, at the input where it fails. The delay table holds \<open>0\<close> for
  \<open>callback_requested\<close>, and \<open>delayMap[outcomeType] || 4\<close> takes the fallback for a
  stored \<open>0\<close>: the default delay of \<open>callback_requested\<close> is 4 hours, not 0.
\<close>

theorem getDefaultDelayHours_callback_requested:
  "map_of delayMap ''callback_requested'' = Some 0 \<and>
   getDefaultDelayHours ''callback_requested'' = Val 4"
  by (simp add: getDefaultDelayHours_def lookupOr_def delayMap_def truthyNumber_def)

subsection \<open>Evaluation\<close>

lemmas js_defs =
  lookupOr_def numberOr_def stringOr_def boolOr_def truthyNumber_def truthyString_def
  objectPrototypeMembers_def

lemmas scoring_defs =
  getDefaultDelayHours_def getScoreAdjustment_def delayMap_def adjustmentMap_def
  calculateNextCallTime_def

lemmas store_defs =
  findSession_def replaceSession_def orKeep_def updateQueueStatus_def logInfo_def
  logWarn_def transaction_def

lemmas record_defs =
  recordCallOutcome_def callOutcomeData_def updateUserScoreAfterCall_def
  createCallback_def releaseAgent_def completeQueueEntry_def scoreOf_def

lemmas webhook_defs =
  handleTwilioWebhook_def webhookUpdateData_def updateCallStatus_def statusMap_def

lemmas example_defs =
  exampleSession_def exampleStore_def emptyStore_def outcomeOf_def noFilters_def
  noQueueOptions_def queueOptions_def queueStore_def

subsection \<open>Lists and rows\<close>

lemma find_map_preserved:
  assumes "\<And>x. P (f x) = P x"
  shows "find P (map f xs) = map_option f (find P xs)"
  using assms by (induction xs) auto

lemma find_map_other:
  assumes "\<And>x. P x \<Longrightarrow> f x = x" and "\<And>x. P (f x) = P x"
  shows "find P (map f xs) = find P xs"
  using assms by (induction xs) auto

lemma find_append_other: "\<not> P x \<Longrightarrow> find P (xs @ [x]) = find P xs"
  by (induction xs) auto

lemma find_append_new: "find P xs = None \<Longrightarrow> P x \<Longrightarrow> find P (xs @ [x]) = Some x"
  by (induction xs) (auto split: if_splits)

lemma findSession_id: "findSession sessions sessionId = Some s \<Longrightarrow> cs_id s = sessionId"
  by (auto simp add: findSession_def find_Some_iff)

lemma findSession_replaceSession:
  "findSession sessions sessionId = Some s \<Longrightarrow> cs_id session = sessionId \<Longrightarrow>
     findSession (replaceSession session sessions) sessionId = Some session"
  unfolding findSession_def replaceSession_def
  by (induction sessions) (auto split: if_splits)

subsection \<open>What a call of recordCallOutcome writes\<close>

lemma updateUserScoreAfterCall_frame:
  assumes "updateUserScoreAfterCall tx now userId outcomeType scoreAdjustment = Inr tx'"
  shows "callSessions tx' = callSessions tx" and "callOutcomes tx' = callOutcomes tx"
  using assms
  by (auto simp add: updateUserScoreAfterCall_def split: js.splits option.splits)

lemma later_steps_frame:
  assumes "completeQueueEntry callSession
             (releaseAgent now sessionId agentId callSession
                (createCallback sessionId agentId callSession outcome tx)) = Inr tx'"
  shows "callSessions tx' = callSessions tx" and "callOutcomes tx' = callOutcomes tx"
    and "userCallScores tx' = userCallScores tx"
  using assms
  by (auto simp add: completeQueueEntry_def updateQueueStatus_def releaseAgent_def
        createCallback_def split: if_splits option.splits)

text \<open>
  A call that returns an outcome row found the session, passed the check of the agent,
  appended that row and wrote the score; the sessions are as before.
\<close>

lemma recordCallOutcome_success:
  assumes "recordCallOutcome st now sessionId agentId outcome = (Inr row, st')"
  obtains callSession tx where
    "findSession (callSessions st) sessionId = Some callSession"
    "cs_agentId callSession = agentId"
    "callOutcomeData sessionId agentId outcome = Inr row"
    "updateUserScoreAfterCall (st\<lparr>callOutcomes := callOutcomes st @ [row]\<rparr>) now
       (cs_userId callSession) (oo_outcomeType outcome) (oo_scoreAdjustment outcome) = Inr tx"
    "callSessions st' = callSessions st"
    "callOutcomes st' = callOutcomes st @ [row]"
    "userCallScores st' = userCallScores tx"
proof -
  from assms obtain callSession where
    f: "findSession (callSessions st) sessionId = Some callSession"
    by (cases "findSession (callSessions st) sessionId")
       (auto simp add: recordCallOutcome_def transaction_def)
  from assms f have a: "cs_agentId callSession = agentId"
    by (auto simp add: recordCallOutcome_def transaction_def split: if_splits)
  from assms f a have d: "callOutcomeData sessionId agentId outcome = Inr row"
    by (auto simp add: recordCallOutcome_def transaction_def split: sum.splits)
  from assms f a d obtain tx where
    u: "updateUserScoreAfterCall (st\<lparr>callOutcomes := callOutcomes st @ [row]\<rparr>) now
          (cs_userId callSession) (oo_outcomeType outcome) (oo_scoreAdjustment outcome) = Inr tx"
    by (auto simp add: recordCallOutcome_def transaction_def split: sum.splits)
  from assms f a d u obtain tx' where
    l: "completeQueueEntry callSession
          (releaseAgent now sessionId agentId callSession
             (createCallback sessionId agentId callSession outcome tx)) = Inr tx'" and
    s: "st' = logInfo ''Call outcome recorded'' tx'"
    by (auto simp add: recordCallOutcome_def transaction_def split: sum.splits)
  have "callSessions st' = callSessions st"
    using s later_steps_frame(1) [OF l] updateUserScoreAfterCall_frame(1) [OF u]
    by (simp add: logInfo_def)
  moreover have "callOutcomes st' = callOutcomes st @ [row]"
    using s later_steps_frame(2) [OF l] updateUserScoreAfterCall_frame(2) [OF u]
    by (simp add: logInfo_def)
  moreover have "userCallScores st' = userCallScores tx"
    using s later_steps_frame(3) [OF l] by (simp add: logInfo_def)
  ultimately show ?thesis
    using that f a d u by blast
qed

lemma recordCallOutcome_failure:
  "fst (recordCallOutcome st now sessionId agentId outcome) = Inl e \<Longrightarrow>
     snd (recordCallOutcome st now sessionId agentId outcome) = st"
  by (auto simp add: recordCallOutcome_def transaction_def
        split: sum.splits option.splits if_splits)

lemma callOutcomeData_session:
  "callOutcomeData sessionId agentId outcome = Inr row \<Longrightarrow> co_callSessionId row = sessionId"
  by (auto simp add: callOutcomeData_def split: js.splits prod.splits)

subsection \<open>Overrides of the adjustment and the delay\<close>

lemma numberOr_override: "n \<noteq> 0 \<Longrightarrow> numberOr (Some n) d = Val n"
  by (simp add: numberOr_def truthyNumber_def)

lemma numberOr_zero: "numberOr (Some 0) d = d"
  by (simp add: numberOr_def truthyNumber_def)

text \<open>
  An override of the adjustment other than 0 wins: the score of a user who has one moves
  by the override.
\<close>

lemma recordCallOutcome_adjustment_override:
  assumes "recordCallOutcome st now sessionId agentId outcome = (Inr row, st')"
      and "findSession (callSessions st) sessionId = Some callSession"
      and "scoreOf st (cs_userId callSession) = Some score"
      and "oo_scoreAdjustment outcome = Some n" and "n \<noteq> 0"
  shows "map_option us_currentScore (scoreOf st' (cs_userId callSession))
           = Some (us_currentScore score + n)"
proof -
  from assms(1) obtain cs tx where
    f: "findSession (callSessions st) sessionId = Some cs" and
    u: "updateUserScoreAfterCall (st\<lparr>callOutcomes := callOutcomes st @ [row]\<rparr>) now
          (cs_userId cs) (oo_outcomeType outcome) (oo_scoreAdjustment outcome) = Inr tx" and
    c: "userCallScores st' = userCallScores tx"
    by (rule recordCallOutcome_success)
  have e: "cs = callSession"
    using f assms(2) by simp
  have i: "us_userId score = cs_userId callSession"
    using assms(3) by (auto simp add: scoreOf_def find_Some_iff)
  obtain nextCallAfter where
    n: "calculateNextCallTime now (oo_outcomeType outcome) = Some nextCallAfter"
    using u by (auto simp add: updateUserScoreAfterCall_def split: js.splits option.splits)
  have "userCallScores tx =
          map (\<lambda>s. if us_userId s = cs_userId callSession
                    then s\<lparr>us_currentScore := us_currentScore s + n,
                           us_lastOutcome := Some (oo_outcomeType outcome),
                           us_lastCallAt := Some now,
                           us_totalAttempts := us_totalAttempts s + 1,
                           us_nextCallAfter := Some nextCallAfter\<rparr>
                    else s)
            (userCallScores st)"
    using u n assms(3,4,5) unfolding e
    by (auto simp add: updateUserScoreAfterCall_def scoreOf_def numberOr_override)
  then show ?thesis
    using c assms(3) i by (simp add: scoreOf_def find_map_preserved)
qed

text \<open>
  C2, at an input where it fails. User 7 has a score of 50; an outcome \<open>no_answer\<close> is
  recorded at time 1000 with the overrides \<open>scoreAdjustment = 0\<close> and
  \<open>nextCallDelayHours = 10\<close>. The outcome row keeps the delay 10, but the score moves by
  the default 5 and \<open>nextCallAfter\<close> is 4 hours after the call: the override 0 of the
  adjustment is falsy, and the override of the delay never reaches
  \<open>calculateNextCallTime\<close>.
\<close>

theorem recordCallOutcome_overrides_lost:
  "recordCallOutcome
     (exampleStore\<lparr>userCallScores :=
        [\<lparr>us_userId = 7, us_currentScore = 50, us_lastOutcome = None, us_lastCallAt = None,
          us_totalAttempts = 0, us_nextCallAfter = None\<rparr>]\<rparr>)
     1000 ''s1'' 1
     ((outcomeOf ''no_answer'')\<lparr>oo_scoreAdjustment := Some 0, oo_nextCallDelayHours := Some 10\<rparr>)
   = (Inr \<lparr>co_callSessionId = ''s1'', co_outcomeType = ''no_answer'', co_outcomeNotes = [],
            co_nextCallDelayHours = 10, co_scoreAdjustment = 5, co_magicLinkSent = False,
            co_smsSent = False, co_documentsRequested = None, co_recordedByAgentId = 1\<rparr>,
      exampleStore
        \<lparr>callOutcomes :=
           [\<lparr>co_callSessionId = ''s1'', co_outcomeType = ''no_answer'', co_outcomeNotes = [],
             co_nextCallDelayHours = 10, co_scoreAdjustment = 5, co_magicLinkSent = False,
             co_smsSent = False, co_documentsRequested = None, co_recordedByAgentId = 1\<rparr>],
         userCallScores :=
           [\<lparr>us_userId = 7, us_currentScore = 55, us_lastOutcome = Some ''no_answer'',
             us_lastCallAt = Some 1000, us_totalAttempts = 1,
             us_nextCallAfter = Some (1000 + 4 * 3600000)\<rparr>],
         logs := [(''info'', ''Call outcome recorded'')]\<rparr>)"
  by (simp add: record_defs store_defs scoring_defs js_defs example_defs)

subsection \<open>The score of a user over a sequence of outcomes\<close>

lemma updateUserScoreAfterCall_attempts:
  assumes "updateUserScoreAfterCall tx now userId outcomeType scoreAdjustment = Inr tx'"
  shows "attempts tx' u = attempts tx u + (if u = userId then 1 else 0)"
proof -
  obtain adjustment nextCallAfter where
    a: "numberOr scoreAdjustment (getScoreAdjustment outcomeType) = Val adjustment" and
    n: "calculateNextCallTime now outcomeType = Some nextCallAfter"
    using assms
    by (auto simp add: updateUserScoreAfterCall_def split: js.splits option.splits)
  show ?thesis
  proof (cases "find (\<lambda>s. us_userId s = userId) (userCallScores tx)")
    case None
    then have t: "userCallScores tx' = userCallScores tx @
        [\<lparr>us_userId = userId, us_currentScore = max 0 adjustment,
          us_lastOutcome = Some outcomeType, us_lastCallAt = Some now,
          us_totalAttempts = 1, us_nextCallAfter = Some nextCallAfter\<rparr>]"
      using assms a n by (auto simp add: updateUserScoreAfterCall_def)
    show ?thesis
    proof (cases "u = userId")
      case True
      then show ?thesis
        using None t by (simp add: attempts_def scoreOf_def find_append_new)
    next
      case False
      then show ?thesis
        using t by (simp add: attempts_def scoreOf_def find_append_other)
    qed
  next
    case (Some s)
    then have t: "userCallScores tx' =
        map (\<lambda>s. if us_userId s = userId
                  then s\<lparr>us_currentScore := us_currentScore s + adjustment,
                         us_lastOutcome := Some outcomeType,
                         us_lastCallAt := Some now,
                         us_totalAttempts := us_totalAttempts s + 1,
                         us_nextCallAfter := Some nextCallAfter\<rparr>
                  else s)
          (userCallScores tx)"
      using assms a n by (auto simp add: updateUserScoreAfterCall_def)
    show ?thesis
    proof (cases "u = userId")
      case True
      moreover have "us_userId s = userId"
        using Some by (auto simp add: find_Some_iff)
      ultimately show ?thesis
        using Some t by (simp add: attempts_def scoreOf_def find_map_preserved)
    next
      case False
      then show ?thesis
        using t by (simp add: attempts_def scoreOf_def find_map_other)
    qed
  qed
qed

lemma attempts_cong: "userCallScores a = userCallScores b \<Longrightarrow> attempts a u = attempts b u"
  by (simp add: attempts_def scoreOf_def)

text \<open>
  Each call moves the attempts of a user and the number of outcome rows of the user
  together, so over any sequence of calls the attempts of a user who started with no
  score and no outcome row are the number of outcomes recorded for the user.
\<close>

lemma recordCallOutcome_attempts:
  "attempts (snd (recordCallOutcome st now sessionId agentId outcome)) u
     - int (length (outcomesOfUser (snd (recordCallOutcome st now sessionId agentId outcome)) u))
   = attempts st u - int (length (outcomesOfUser st u))"
proof (cases "recordCallOutcome st now sessionId agentId outcome")
  case (Pair res st')
  show ?thesis
  proof (cases res)
    case (Inl e)
    then show ?thesis
      using Pair recordCallOutcome_failure [of st now sessionId agentId outcome e] by simp
  next
    case (Inr row)
    with Pair have r: "recordCallOutcome st now sessionId agentId outcome = (Inr row, st')"
      by simp
    from r obtain callSession tx where
      f: "findSession (callSessions st) sessionId = Some callSession" and
      d: "callOutcomeData sessionId agentId outcome = Inr row" and
      u: "updateUserScoreAfterCall (st\<lparr>callOutcomes := callOutcomes st @ [row]\<rparr>) now
            (cs_userId callSession) (oo_outcomeType outcome) (oo_scoreAdjustment outcome) = Inr tx" and
      s: "callSessions st' = callSessions st" and
      o: "callOutcomes st' = callOutcomes st @ [row]" and
      c: "userCallScores st' = userCallScores tx"
      by (rule recordCallOutcome_success)
    have "attempts st' u = attempts tx u"
      by (rule attempts_cong [OF c])
    also have "\<dots> = attempts (st\<lparr>callOutcomes := callOutcomes st @ [row]\<rparr>) u
                     + (if u = cs_userId callSession then 1 else 0)"
      by (rule updateUserScoreAfterCall_attempts [OF u])
    also have "attempts (st\<lparr>callOutcomes := callOutcomes st @ [row]\<rparr>) u = attempts st u"
      by (rule attempts_cong) simp
    finally have a:
      "attempts st' u = attempts st u + (if u = cs_userId callSession then 1 else 0)" .
    have "int (length (outcomesOfUser st' u)) =
            int (length (outcomesOfUser st u)) + (if u = cs_userId callSession then 1 else 0)"
      using f s o callOutcomeData_session [OF d] by (auto simp add: outcomesOfUser_def)
    with a show ?thesis
      using r by simp
  qed
qed

lemma recordCallOutcomes_attempts:
  "attempts (recordCallOutcomes st calls) u
     - int (length (outcomesOfUser (recordCallOutcomes st calls) u))
   = attempts st u - int (length (outcomesOfUser st u))"
proof (induction calls arbitrary: st)
  case Nil
  show ?case by simp
next
  case (Cons call calls)
  obtain now sessionId agentId outcome where c: "call = (now, sessionId, agentId, outcome)"
    by (cases call) auto
  show ?case
    unfolding c recordCallOutcomes.simps
    by (simp only: Cons.IH recordCallOutcome_attempts)
qed

corollary recordCallOutcomes_totalAttempts:
  assumes "scoreOf st u = None" and "outcomesOfUser st u = []"
  shows "attempts (recordCallOutcomes st calls) u =
           int (length (outcomesOfUser (recordCallOutcomes st calls) u))"
  using recordCallOutcomes_attempts [of st calls u] assms by (simp add: attempts_def)

text \<open>
  C3, at an input where it fails. Two outcomes \<open>contacted\<close> are recorded for user 7,
  who has no score yet. The first creates the score at \<open>max(0, -10) = 0\<close>; the second
  increments it by \<open>-10\<close> with no floor. The attempts are counted as claimed (2 after
  two outcomes), the score is negative.
\<close>

theorem recordCallOutcome_score_negative:
  "scoreOf (snd (recordCallOutcome exampleStore 1000 ''s1'' 1 (outcomeOf ''contacted''))) 7
     = Some \<lparr>us_userId = 7, us_currentScore = 0, us_lastOutcome = Some ''contacted'',
             us_lastCallAt = Some 1000, us_totalAttempts = 1,
             us_nextCallAfter = Some (1000 + 24 * 3600000)\<rparr> \<and>
   scoreOf (snd (recordCallOutcome
                   (snd (recordCallOutcome exampleStore 1000 ''s1'' 1 (outcomeOf ''contacted'')))
                   2000 ''s1'' 1 (outcomeOf ''contacted''))) 7
     = Some \<lparr>us_userId = 7, us_currentScore = -10, us_lastOutcome = Some ''contacted'',
             us_lastCallAt = Some 2000, us_totalAttempts = 2,
             us_nextCallAfter = Some (2000 + 24 * 3600000)\<rparr>"
  by (simp add: record_defs store_defs scoring_defs js_defs example_defs)

subsection \<open>A fresh user\<close>

text \<open>
  What the code does for a user with no score: the score is created with the resolved
  adjustment of the outcome row floored at 0, one attempt, the outcome type, and the next
  call time that \<open>calculateNextCallTime\<close> gives for the outcome type.
\<close>

lemma recordCallOutcome_fresh_user:
  assumes "recordCallOutcome st now sessionId agentId outcome = (Inr row, st')"
      and "findSession (callSessions st) sessionId = Some callSession"
      and "scoreOf st (cs_userId callSession) = None"
  shows "scoreOf st' (cs_userId callSession) =
           Some \<lparr>us_userId = cs_userId callSession,
                 us_currentScore = max 0 (co_scoreAdjustment row),
                 us_lastOutcome = Some (oo_outcomeType outcome),
                 us_lastCallAt = Some now,
                 us_totalAttempts = 1,
                 us_nextCallAfter = calculateNextCallTime now (oo_outcomeType outcome)\<rparr>"
proof -
  from assms(1) obtain cs tx where
    f: "findSession (callSessions st) sessionId = Some cs" and
    d: "callOutcomeData sessionId agentId outcome = Inr row" and
    u: "updateUserScoreAfterCall (st\<lparr>callOutcomes := callOutcomes st @ [row]\<rparr>) now
          (cs_userId cs) (oo_outcomeType outcome) (oo_scoreAdjustment outcome) = Inr tx" and
    c: "userCallScores st' = userCallScores tx"
    by (rule recordCallOutcome_success)
  have e: "cs = callSession"
    using f assms(2) by simp
  have a: "numberOr (oo_scoreAdjustment outcome) (getScoreAdjustment (oo_outcomeType outcome))
             = Val (co_scoreAdjustment row)"
    using d by (auto simp add: callOutcomeData_def split: js.splits prod.splits)
  obtain nextCallAfter where
    n: "calculateNextCallTime now (oo_outcomeType outcome) = Some nextCallAfter"
    using u by (auto simp add: updateUserScoreAfterCall_def split: js.splits option.splits)
  have "userCallScores tx = userCallScores st @
          [\<lparr>us_userId = cs_userId callSession,
            us_currentScore = max 0 (co_scoreAdjustment row),
            us_lastOutcome = Some (oo_outcomeType outcome),
            us_lastCallAt = Some now,
            us_totalAttempts = 1,
            us_nextCallAfter = Some nextCallAfter\<rparr>]"
    using u a n assms(3) unfolding e
    by (auto simp add: updateUserScoreAfterCall_def scoreOf_def)
  then show ?thesis
    using c n assms(3) by (simp add: scoreOf_def find_append_new)
qed

text \<open>
  C6, at two inputs where it fails, both for user 7 with no score yet, at time 1000.
  With \<open>contacted\<close> and the override \<open>nextCallDelayHours = 10\<close> the outcome row holds
  the resolved delay 10, and \<open>nextCallAfter\<close> is 24 hours after the call. With
  \<open>callback_requested\<close> and no override the delay used is 4 hours, where the table
  has 0.
\<close>

theorem recordCallOutcome_fresh_user_delay:
  "map co_nextCallDelayHours
     (callOutcomes (snd (recordCallOutcome exampleStore 1000 ''s1'' 1
        ((outcomeOf ''contacted'')\<lparr>oo_nextCallDelayHours := Some 10\<rparr>)))) = [10] \<and>
   scoreOf (snd (recordCallOutcome exampleStore 1000 ''s1'' 1
        ((outcomeOf ''contacted'')\<lparr>oo_nextCallDelayHours := Some 10\<rparr>))) 7
     = Some \<lparr>us_userId = 7, us_currentScore = 0, us_lastOutcome = Some ''contacted'',
             us_lastCallAt = Some 1000, us_totalAttempts = 1,
             us_nextCallAfter = Some (1000 + 24 * 3600000)\<rparr> \<and>
   scoreOf (snd (recordCallOutcome exampleStore 1000 ''s1'' 1
        (outcomeOf ''callback_requested''))) 7
     = Some \<lparr>us_userId = 7, us_currentScore = 0, us_lastOutcome = Some ''callback_requested'',
             us_lastCallAt = Some 1000, us_totalAttempts = 1,
             us_nextCallAfter = Some (1000 + 4 * 3600000)\<rparr>"
  by (simp add: record_defs store_defs scoring_defs js_defs example_defs)

subsection \<open>Webhooks\<close>

text \<open>
  A webhook for a \<open>CallSid\<close> that no session has returns normally; it writes the
  warning to the log and nothing to the tables.
\<close>

lemma handleTwilioWebhook_unknown:
  assumes "find (\<lambda>s. cs_twilioCallSid s = Some (CallSid webhookData)) (callSessions st) = None"
  shows "handleTwilioWebhook st tEvent tUpdate webhookData =
           (Inr (), st\<lparr>logs := logs st @ [(''warn'', ''Twilio webhook for unknown call session'')]\<rparr>)"
  using assms by (simp add: handleTwilioWebhook_def logWarn_def)

text \<open>
  The seven rows of the status table, and the fallback for a status that is neither a key
  of the table nor the name of an inherited member.
\<close>

lemma statusMap_table:
  "lookupOr truthyString statusMap ''ringing'' ''failed'' = Val ''ringing''"
  "lookupOr truthyString statusMap ''in-progress'' ''failed'' = Val ''connected''"
  "lookupOr truthyString statusMap ''completed'' ''failed'' = Val ''completed''"
  "lookupOr truthyString statusMap ''busy'' ''failed'' = Val ''no_answer''"
  "lookupOr truthyString statusMap ''failed'' ''failed'' = Val ''failed''"
  "lookupOr truthyString statusMap ''no-answer'' ''failed'' = Val ''no_answer''"
  "lookupOr truthyString statusMap ''canceled'' ''failed'' = Val ''failed''"
  by (simp_all add: lookupOr_def statusMap_def truthyString_def)

lemma statusMap_unrecognized:
  "status \<notin> fst ` set statusMap \<Longrightarrow> status \<notin> set objectPrototypeMembers \<Longrightarrow>
     lookupOr truthyString statusMap status ''failed'' = Val ''failed''"
  by (rule lookupOr_absent)

text \<open>No webhook touches a score.\<close>

lemma handleTwilioWebhook_userCallScores:
  "userCallScores (snd (handleTwilioWebhook st tEvent tUpdate webhookData)) = userCallScores st"
  by (auto simp add: handleTwilioWebhook_def updateCallStatus_def logWarn_def logInfo_def Let_def
        split: option.splits js.splits prod.splits sum.splits)

lemma webhookUpdateData_connectedAt_kept:
  "cs_connectedAt callSession = Some c \<Longrightarrow>
     uo_connectedAt (webhookUpdateData callSession tEvent status) = None"
  by (simp add: webhookUpdateData_def)

text \<open>
  The row that \<open>updateCallStatus\<close> leaves for a session: the row as it was, when the
  update is refused, and otherwise the row with the given fields written, the duration
  computed against the clock of the update, and the talk time computed from the two
  stamps of the update data.
\<close>

lemma updateCallStatus_stored:
  assumes "findSession (callSessions st) sessionId = Some s"
      and "findSession (callSessions (snd (updateCallStatus st now sessionId updateData)))
             sessionId = Some s'"
  obtains (refused) m where "uo_status updateData = Some (ProtoMember m)" and "s' = s"
  | (written)
      "s' = s\<lparr>cs_status :=
                  (case uo_status updateData of Some (Val v) \<Rightarrow> v | _ \<Rightarrow> cs_status s),
                cs_twilioCallSid := orKeep (uo_twilioCallSid updateData) (cs_twilioCallSid s),
                cs_connectedAt := orKeep (uo_connectedAt updateData) (cs_connectedAt s),
                cs_endedAt := orKeep (uo_endedAt updateData) (cs_endedAt s),
                cs_durationSeconds :=
                  (case uo_endedAt updateData of
                     Some endedAt \<Rightarrow> Some ((endedAt - now) div 1000)
                   | None \<Rightarrow> cs_durationSeconds s),
                cs_talkTimeSeconds :=
                  (case (uo_endedAt updateData, uo_connectedAt updateData) of
                     (Some endedAt, Some connectedAt) \<Rightarrow>
                       Some ((endedAt - connectedAt) div 1000)
                   | _ \<Rightarrow> cs_talkTimeSeconds s)\<rparr>"
proof (cases "\<exists>m. uo_status updateData = Some (ProtoMember m)")
  case True
  then have "snd (updateCallStatus st now sessionId updateData) = st"
    by (auto simp add: updateCallStatus_def)
  then have "s' = s"
    using assms by simp
  with True show ?thesis by (auto intro: refused)
next
  case False
  define session where
    "session = s\<lparr>cs_status :=
                    (case uo_status updateData of Some (Val v) \<Rightarrow> v | _ \<Rightarrow> cs_status s),
                  cs_twilioCallSid := orKeep (uo_twilioCallSid updateData) (cs_twilioCallSid s),
                  cs_connectedAt := orKeep (uo_connectedAt updateData) (cs_connectedAt s),
                  cs_endedAt := orKeep (uo_endedAt updateData) (cs_endedAt s),
                  cs_durationSeconds :=
                    (case uo_endedAt updateData of
                       Some endedAt \<Rightarrow> Some ((endedAt - now) div 1000)
                     | None \<Rightarrow> cs_durationSeconds s),
                  cs_talkTimeSeconds :=
                    (case (uo_endedAt updateData, uo_connectedAt updateData) of
                       (Some endedAt, Some connectedAt) \<Rightarrow>
                         Some ((endedAt - connectedAt) div 1000)
                     | _ \<Rightarrow> cs_talkTimeSeconds s)\<rparr>"
  have i: "cs_id session = sessionId"
    using findSession_id [OF assms(1)] by (simp add: session_def)
  have "callSessions (snd (updateCallStatus st now sessionId updateData)) =
          replaceSession session (callSessions st)"
    using False assms(1)
    by (auto simp add: updateCallStatus_def Let_def logInfo_def session_def
          split: option.splits js.splits)
  then have "s' = session"
    using assms(2) findSession_replaceSession [OF assms(1) i] by simp
  then show ?thesis
    unfolding session_def by (rule written)
qed

text \<open>
  A webhook stamps at most one of \<open>connectedAt\<close> and \<open>endedAt\<close>. So no webhook changes
  a \<open>connectedAt\<close> that is set, no webhook writes the talk time, and the duration that a
  terminal webhook writes is the difference of its two readings of the clock.
\<close>

lemma webhookUpdateData_one_stamp:
  "uo_endedAt (webhookUpdateData callSession tEvent status) = None \<or>
   uo_connectedAt (webhookUpdateData callSession tEvent status) = None"
  by (simp add: webhookUpdateData_def)

lemma handleTwilioWebhook_sessions:
  assumes "find (\<lambda>s. cs_twilioCallSid s = Some (CallSid webhookData)) (callSessions st)
             = Some callSession"
  shows "callSessions (snd (handleTwilioWebhook st tEvent tUpdate webhookData)) =
           callSessions (snd (updateCallStatus st tUpdate (cs_id callSession)
              (webhookUpdateData callSession tEvent (CallStatus webhookData))))"
  using assms
  by (auto simp add: handleTwilioWebhook_def logInfo_def split: prod.splits sum.splits)

lemma handleTwilioWebhook_connectedAt_kept:
  assumes "find (\<lambda>s. cs_twilioCallSid s = Some (CallSid webhookData)) (callSessions st)
             = Some callSession"
      and "findSession (callSessions st) (cs_id callSession) = Some callSession"
      and "cs_connectedAt callSession = Some c"
      and "findSession (callSessions (snd (handleTwilioWebhook st tEvent tUpdate webhookData)))
             (cs_id callSession) = Some callSession'"
  shows "cs_connectedAt callSession' = Some c"
proof -
  have f: "findSession
             (callSessions (snd (updateCallStatus st tUpdate (cs_id callSession)
                (webhookUpdateData callSession tEvent (CallStatus webhookData)))))
             (cs_id callSession) = Some callSession'"
    using assms(4) handleTwilioWebhook_sessions [OF assms(1)] by simp
  from assms(2) f show ?thesis
  proof (cases rule: updateCallStatus_stored)
    case (refused m)
    then show ?thesis using assms(3) by simp
  next
    case written
    then show ?thesis
      using assms(3) webhookUpdateData_connectedAt_kept [OF assms(3)]
      by (simp add: orKeep_def)
  qed
qed

lemma handleTwilioWebhook_talkTime_kept:
  assumes "find (\<lambda>s. cs_twilioCallSid s = Some (CallSid webhookData)) (callSessions st)
             = Some callSession"
      and "findSession (callSessions st) (cs_id callSession) = Some callSession"
      and "findSession (callSessions (snd (handleTwilioWebhook st tEvent tUpdate webhookData)))
             (cs_id callSession) = Some callSession'"
  shows "cs_talkTimeSeconds callSession' = cs_talkTimeSeconds callSession"
proof -
  have f: "findSession
             (callSessions (snd (updateCallStatus st tUpdate (cs_id callSession)
                (webhookUpdateData callSession tEvent (CallStatus webhookData)))))
             (cs_id callSession) = Some callSession'"
    using assms(3) handleTwilioWebhook_sessions [OF assms(1)] by simp
  from assms(2) f show ?thesis
  proof (cases rule: updateCallStatus_stored)
    case (refused m)
    then show ?thesis by simp
  next
    case written
    then show ?thesis
      using webhookUpdateData_one_stamp [of callSession tEvent "CallStatus webhookData"]
      by (auto split: option.splits)
  qed
qed

lemma handleTwilioWebhook_duration:
  assumes "find (\<lambda>s. cs_twilioCallSid s = Some (CallSid webhookData)) (callSessions st)
             = Some callSession"
      and "findSession (callSessions st) (cs_id callSession) = Some callSession"
      and "CallStatus webhookData
             \<in> set [''completed'', ''busy'', ''failed'', ''no-answer'', ''canceled'']"
      and "findSession (callSessions (snd (handleTwilioWebhook st tEvent tUpdate webhookData)))
             (cs_id callSession) = Some callSession'"
  shows "cs_durationSeconds callSession' = Some ((tEvent - tUpdate) div 1000)"
proof -
  have f: "findSession
             (callSessions (snd (updateCallStatus st tUpdate (cs_id callSession)
                (webhookUpdateData callSession tEvent (CallStatus webhookData)))))
             (cs_id callSession) = Some callSession'"
    using assms(4) handleTwilioWebhook_sessions [OF assms(1)] by simp
  have s: "\<not> (\<exists>m. uo_status (webhookUpdateData callSession tEvent (CallStatus webhookData))
                    = Some (ProtoMember m))"
    using assms(3) by (auto simp add: webhookUpdateData_def js_defs statusMap_def)
  from assms(2) f show ?thesis
  proof (cases rule: updateCallStatus_stored)
    case (refused m)
    then show ?thesis using s by simp
  next
    case written
    then show ?thesis
      using assms(3) by (auto simp add: webhookUpdateData_def)
  qed
qed

text \<open>
  C4, at an input where it fails. The session started at time 0. The event
  \<open>in-progress\<close> arrives at 10 s, the event \<open>completed\<close> at 135 s, in two deliveries,
  and \<open>updateCallStatus\<close> reads the clock in the same millisecond as the webhook. The
  stored duration is \<open>endedAt\<close> minus the clock of the update, 0 and not 135, and the
  talk time is not written, since the update that carries \<open>endedAt\<close> carries no
  \<open>connectedAt\<close>.
\<close>

theorem handleTwilioWebhook_duration_talk_time:
  "callSessions
     (snd (handleTwilioWebhook
             (snd (handleTwilioWebhook exampleStore 10000 10000
                     \<lparr>CallSid = ''CA1'', CallStatus = ''in-progress''\<rparr>))
             135000 135000 \<lparr>CallSid = ''CA1'', CallStatus = ''completed''\<rparr>))
   = [exampleSession
        \<lparr>cs_status := ''completed'', cs_connectedAt := Some 10000, cs_endedAt := Some 135000,
         cs_durationSeconds := Some 0, cs_talkTimeSeconds := None\<rparr>]"
  by (simp add: webhook_defs store_defs js_defs example_defs Let_def)

text \<open>
  C5, at an input where it fails. The event \<open>completed\<close> is delivered at 100 s and
  again at 200 s: the second delivery stamps \<open>endedAt\<close> again.
\<close>

theorem handleTwilioWebhook_completed_twice:
  "map cs_endedAt
     (callSessions
        (snd (handleTwilioWebhook exampleStore 100000 100000
                \<lparr>CallSid = ''CA1'', CallStatus = ''completed''\<rparr>))) = [Some 100000] \<and>
   map cs_endedAt
     (callSessions
        (snd (handleTwilioWebhook
                (snd (handleTwilioWebhook exampleStore 100000 100000
                        \<lparr>CallSid = ''CA1'', CallStatus = ''completed''\<rparr>))
                200000 200000 \<lparr>CallSid = ''CA1'', CallStatus = ''completed''\<rparr>))) = [Some 200000]"
  by (simp add: webhook_defs store_defs js_defs example_defs Let_def)

text \<open>
  C8, at an input where it fails. For the matched session and the status
  \<open>constructor\<close>, \<open>statusMap[CallStatus]\<close> is the member that the table inherits
  from \<open>Object.prototype\<close>; it is truthy, so the fallback \<open>failed\<close> is not taken. The
  update carries that member as its status, is refused, and the session keeps the status
  it had.
\<close>

theorem handleTwilioWebhook_inherited_status:
  "uo_status (webhookUpdateData exampleSession 5000 ''constructor'')
     = Some (ProtoMember ''constructor'') \<and>
   handleTwilioWebhook exampleStore 5000 5000 \<lparr>CallSid = ''CA1'', CallStatus = ''constructor''\<rparr>
     = (Inl PrismaClientValidationError, exampleStore)"
  by (simp add: webhook_defs store_defs js_defs example_defs Let_def)

subsection \<open>Rejected outcome submissions\<close>

text \<open>
  C7. When the session id is unknown, \<open>recordCallOutcome\<close> fails with the error
  \<open>Call session not found\<close>; when the session belongs to another agent, it fails with
  \<open>Agent not authorized for this call session\<close>. In both cases the store it returns is
  the store it was given: no outcome row, no score, no callback, no agent session, no
  queue entry and no log line is written.
\<close>

theorem recordCallOutcome_rejected:
  "(findSession (callSessions st) sessionId = None \<longrightarrow>
      recordCallOutcome st now sessionId agentId outcome
        = (Inl (Error ''Call session not found''), st)) \<and>
   (\<forall>callSession.
      findSession (callSessions st) sessionId = Some callSession \<and>
      cs_agentId callSession \<noteq> agentId \<longrightarrow>
      recordCallOutcome st now sessionId agentId outcome
        = (Inl (Error ''Agent not authorized for this call session''), st))"
  by (simp add: recordCallOutcome_def transaction_def)

theorem recordCallOutcome_rejected_witness:
  "recordCallOutcome exampleStore 1000 ''s2'' 1 (outcomeOf ''contacted'')
     = (Inl (Error ''Call session not found''), exampleStore) \<and>
   recordCallOutcome exampleStore 1000 ''s1'' 2 (outcomeOf ''contacted'')
     = (Inl (Error ''Agent not authorized for this call session''), exampleStore)"
  using recordCallOutcome_rejected [where st = exampleStore and sessionId = "''s2''"
          and now = 1000 and agentId = 1 and outcome = "outcomeOf ''contacted''"]
        recordCallOutcome_rejected [where st = exampleStore and sessionId = "''s1''"
          and now = 1000 and agentId = 2 and outcome = "outcomeOf ''contacted''"]
  by (simp add: findSession_def exampleStore_def exampleSession_def)

subsection \<open>Calls without a queue entry\<close>

text \<open>
  \<open>recordCallOutcome\<close> guards the completion of the queue entry by the truthiness of
  \<open>callQueueId\<close>. On a row whose \<open>callQueueId\<close> is empty the step is skipped: the
  queue table is left as it is and nothing in the result depends on it.
\<close>

lemma updateUserScoreAfterCall_callQueues:
  "updateUserScoreAfterCall (tx\<lparr>callQueues := qs, callOutcomes := rows\<rparr>) now userId
       outcomeType scoreAdjustment
     = map_sum id (\<lambda>t. t\<lparr>callQueues := qs\<rparr>)
         (updateUserScoreAfterCall (tx\<lparr>callOutcomes := rows\<rparr>) now userId outcomeType
            scoreAdjustment)"
  by (simp add: updateUserScoreAfterCall_def split: js.splits option.splits prod.splits)

lemma createCallback_callQueues:
  "createCallback sessionId agentId callSession outcome (tx\<lparr>callQueues := qs\<rparr>)
     = (createCallback sessionId agentId callSession outcome tx)\<lparr>callQueues := qs\<rparr>"
  by (simp add: createCallback_def split: option.splits)

lemma releaseAgent_callQueues:
  "releaseAgent now sessionId agentId callSession (tx\<lparr>callQueues := qs\<rparr>)
     = (releaseAgent now sessionId agentId callSession tx)\<lparr>callQueues := qs\<rparr>"
  by (simp add: releaseAgent_def)

lemma logInfo_callQueues:
  "logInfo message (tx\<lparr>callQueues := qs\<rparr>) = (logInfo message tx)\<lparr>callQueues := qs\<rparr>"
  by (simp add: logInfo_def)

text \<open>With an empty \<open>callQueueId\<close> the transaction is the one without its last step.\<close>

lemma recordCallOutcome_no_queue:
  assumes "findSession (callSessions st) sessionId = Some callSession"
      and "cs_callQueueId callSession = []"
  shows "recordCallOutcome st now sessionId agentId outcome =
           transaction st
             (if cs_agentId callSession \<noteq> agentId
              then Inl (Error ''Agent not authorized for this call session'')
              else
                (case callOutcomeData sessionId agentId outcome of
                   Inl e \<Rightarrow> Inl e
                 | Inr callOutcome \<Rightarrow>
                     (case updateUserScoreAfterCall
                             (st\<lparr>callOutcomes := callOutcomes st @ [callOutcome]\<rparr>)
                             now (cs_userId callSession) (oo_outcomeType outcome)
                             (oo_scoreAdjustment outcome) of
                        Inl e \<Rightarrow> Inl e
                      | Inr tx \<Rightarrow>
                          Inr (callOutcome,
                               logInfo ''Call outcome recorded''
                                 (releaseAgent now sessionId agentId callSession
                                    (createCallback sessionId agentId callSession outcome tx))))))"
  using assms
  by (simp add: recordCallOutcome_def completeQueueEntry_def truthyString_def
        split: sum.splits)

text \<open>The queue table is not read: whatever it holds, the result is the same.\<close>

lemma recordCallOutcome_queue_frame:
  assumes "findSession (callSessions st) sessionId = Some callSession"
      and "cs_callQueueId callSession = []"
  shows "recordCallOutcome (st\<lparr>callQueues := qs\<rparr>) now sessionId agentId outcome =
           (fst (recordCallOutcome st now sessionId agentId outcome),
            (snd (recordCallOutcome st now sessionId agentId outcome))\<lparr>callQueues := qs\<rparr>)"
proof -
  have f: "findSession (callSessions (st\<lparr>callQueues := qs\<rparr>)) sessionId = Some callSession"
    using assms(1) by simp
  show ?thesis
    unfolding recordCallOutcome_no_queue [OF f assms(2)]
      recordCallOutcome_no_queue [OF assms]
    by (simp add: transaction_def updateUserScoreAfterCall_callQueues
          createCallback_callQueues releaseAgent_callQueues logInfo_callQueues
          split: sum.splits)
qed

lemma recordCallOutcome_callQueues_unchanged:
  assumes "findSession (callSessions st) sessionId = Some callSession"
      and "cs_callQueueId callSession = []"
  shows "callQueues (snd (recordCallOutcome st now sessionId agentId outcome)) = callQueues st"
proof -
  have e: "recordCallOutcome st now sessionId agentId outcome =
          (fst (recordCallOutcome st now sessionId agentId outcome),
           (snd (recordCallOutcome st now sessionId agentId outcome))
             \<lparr>callQueues := callQueues st\<rparr>)"
    using recordCallOutcome_queue_frame [OF assms, of "callQueues st" now agentId outcome]
    by simp
  show ?thesis
    by (subst e) simp
qed

text \<open>
  The empty string is no uuid, so a call session whose \<open>callQueueId\<close> is empty is never
  stored: \<open>initiateCall\<close> without a \<open>queueId\<close>, or with an empty one, throws and leaves
  the store as it was.
\<close>

lemma isUuid_empty: "\<not> isUuid []"
  by (simp add: isUuid_def)

lemma initiateCall_empty_queueId:
  assumes "stringOr (so_queueId options) [] = []"
  shows "initiateCall st newId now claims options = (Inl InconsistentColumnData, st)"
  using assms
  by (simp add: initiateCall_def createCallSession_def isUuid_empty transaction_def Let_def)

text \<open>With the id of a queue entry that is there, the call is initiated and the entry assigned.\<close>

lemma initiateCall_with_queueId:
  "initiateCall queueStore ''s1'' 5000 [] queueOptions =
     (Inr \<lparr>cs_id = ''s1'', cs_userId = 7, cs_agentId = 1,
            cs_callQueueId = ''123e4567-e89b-12d3-a456-426614174000'',
            cs_twilioCallSid = None, cs_status = ''initiated'', cs_direction = ''outbound'',
            cs_startedAt = 5000, cs_connectedAt = None, cs_endedAt = None,
            cs_durationSeconds = None, cs_talkTimeSeconds = None, cs_userClaimsContext = []\<rparr>,
      queueStore
        \<lparr>callSessions :=
           [\<lparr>cs_id = ''s1'', cs_userId = 7, cs_agentId = 1,
             cs_callQueueId = ''123e4567-e89b-12d3-a456-426614174000'',
             cs_twilioCallSid = None, cs_status = ''initiated'', cs_direction = ''outbound'',
             cs_startedAt = 5000, cs_connectedAt = None, cs_endedAt = None,
             cs_durationSeconds = None, cs_talkTimeSeconds = None,
             cs_userClaimsContext = []\<rparr>],
         callQueues :=
           [\<lparr>cq_id = ''123e4567-e89b-12d3-a456-426614174000'', cq_status = ''assigned''\<rparr>],
         logs := [(''info'', ''Call session initiated'')]\<rparr>)"
  by (simp add: initiateCall_def createCallSession_def isUuid_def isHexDigit_def
        store_defs js_defs example_defs Let_def)

text \<open>
  C9, at the input where it fails. \<open>initiateCall\<close> is invoked without a \<open>queueId\<close> on
  a store that holds one pending queue entry. The service gives
  \<open>callQueueId: queueId || ''\<close> to \<open>create\<close>; the column is a uuid that references a
  queue entry, the empty string is refused, and the transaction throws: no call session
  is created, with the empty string or otherwise, and the store is as it was.
\<close>

theorem initiateCall_without_queueId_refused:
  "initiateCall queueStore ''s1'' 5000 [] noQueueOptions
     = (Inl InconsistentColumnData, queueStore)"
  by (simp add: initiateCall_def createCallSession_def isUuid_def transaction_def
        stringOr_def noQueueOptions_def Let_def)

subsection \<open>Analytics\<close>

lemma jsDivide_nonzero: "y \<noteq> 0 \<Longrightarrow> jsDivide x y = Some (x / y)"
  by (simp add: jsDivide_def)

lemma minutes_eq:
  "minutes avg =
     (case avg of
        Some a \<Rightarrow> if a \<noteq> 0 then Some (mathRound (a / 60 * 100) / 100) else Some 0
      | None \<Rightarrow> Some 0)"
  unfolding minutes_def by (simp only: jsDivide_nonzero Option.bind.simps)

lemma minutes_defined: "minutes avg \<noteq> None"
  by (simp add: minutes_eq split: option.splits del: not_None_eq)

lemma minutes_null: "minutes None = Some 0"
  by (simp add: minutes_def)

lemma avgDurationMinutes_eq:
  "an_avgDurationMinutes (getCallAnalytics st filters) =
     minutes (average (List.map_filter cs_durationSeconds
                (filter (whereSession filters) (callSessions st))))"
  by (simp add: getCallAnalytics_def Let_def)

lemma avgTalkTimeMinutes_eq:
  "an_avgTalkTimeMinutes (getCallAnalytics st filters) =
     minutes (average (List.map_filter cs_talkTimeSeconds
                (filter (whereSession filters) (callSessions st))))"
  by (simp add: getCallAnalytics_def Let_def)

lemma contactRate_eq:
  "an_contactRate (getCallAnalytics st filters) =
     (if filter (whereSession filters) (callSessions st) = [] then Some 0
      else Some (mathRound
             (of_int (countOr0 (outcomeStats st filters) ''contacted'') /
              of_int (int (length (filter (whereSession filters) (callSessions st)))) * 100)))"
  by (simp add: getCallAnalytics_def Let_def jsDivide_def)

text \<open>
  C10. In the analytics of any store under any filters, the two averages in minutes and
  the contact rate are defined numbers: no division has a zero divisor. When no session
  matches (\<open>totalCalls = 0\<close>) the contact rate is 0; when the average duration, or the
  average talk time, is \<open>null\<close> the corresponding minutes are 0. The six counts are
  integers by their type.
\<close>

theorem getCallAnalytics_defined:
  "an_avgDurationMinutes (getCallAnalytics st filters) \<noteq> None \<and>
   an_avgTalkTimeMinutes (getCallAnalytics st filters) \<noteq> None \<and>
   an_contactRate (getCallAnalytics st filters) \<noteq> None \<and>
   (an_totalCalls (getCallAnalytics st filters) = 0 \<longrightarrow>
      an_contactRate (getCallAnalytics st filters) = Some 0) \<and>
   (average (List.map_filter cs_durationSeconds
       (filter (whereSession filters) (callSessions st))) = None \<longrightarrow>
      an_avgDurationMinutes (getCallAnalytics st filters) = Some 0) \<and>
   (average (List.map_filter cs_talkTimeSeconds
       (filter (whereSession filters) (callSessions st))) = None \<longrightarrow>
      an_avgTalkTimeMinutes (getCallAnalytics st filters) = Some 0)"
proof (intro conjI impI)
  show "an_avgDurationMinutes (getCallAnalytics st filters) \<noteq> None"
    by (simp only: avgDurationMinutes_eq minutes_defined not_False_eq_True)
  show "an_avgTalkTimeMinutes (getCallAnalytics st filters) \<noteq> None"
    by (simp only: avgTalkTimeMinutes_eq minutes_defined not_False_eq_True)
  show "an_contactRate (getCallAnalytics st filters) \<noteq> None"
    by (simp add: contactRate_eq del: not_None_eq)
next
  assume "an_totalCalls (getCallAnalytics st filters) = 0"
  then have "filter (whereSession filters) (callSessions st) = []"
    by (simp add: getCallAnalytics_def Let_def)
  then show "an_contactRate (getCallAnalytics st filters) = Some 0"
    by (simp add: contactRate_eq)
next
  assume "average (List.map_filter cs_durationSeconds
            (filter (whereSession filters) (callSessions st))) = None"
  then show "an_avgDurationMinutes (getCallAnalytics st filters) = Some 0"
    by (simp add: avgDurationMinutes_eq minutes_null)
next
  assume "average (List.map_filter cs_talkTimeSeconds
            (filter (whereSession filters) (callSessions st))) = None"
  then show "an_avgTalkTimeMinutes (getCallAnalytics st filters) = Some 0"
    by (simp add: avgTalkTimeMinutes_eq minutes_null)
qed

theorem getCallAnalytics_defined_witness:
  "an_totalCalls (getCallAnalytics emptyStore noFilters) = 0 \<and>
   an_avgDurationMinutes (getCallAnalytics emptyStore noFilters) = Some 0 \<and>
   an_avgTalkTimeMinutes (getCallAnalytics emptyStore noFilters) = Some 0 \<and>
   an_contactRate (getCallAnalytics emptyStore noFilters) = Some 0"
  using getCallAnalytics_defined [of emptyStore noFilters]
  by (simp add: emptyStore_def average_def getCallAnalytics_def Let_def)

end
